theory Spec2Isabelle
  imports Complex_Main
begin

section \<open>Data model of the graph slice (src/graph-slice.ts)\<close>

text \<open>
  Payloads whose TypeScript declarations live in \<^verbatim>\<open>models/graph\<close> are passed through
  by the slice without inspection. They are kept as JavaScript values.
\<close>

datatype json =
    JUndefined
  | JNull
  | JBool bool
  | JNum real
  | JStr string
  | JArr "json list"
  | JObj "(string \<times> json) list"
  | JInherited string

text \<open>
  \<^verbatim>\<open>DfgRequest\<close> and \<open>FuzzyRequest\<close> are plain objects read by computed key
  (\<^verbatim>\<open>state.graph.dfgFilters[userParam.key]\<close>): a dictionary from property name to value.
  A read finds an own property first; a name that is not an own property is looked up
  on \<^verbatim>\<open>Object.prototype\<close>, the prototype of these objects, and \<open>JInherited k\<close> is the member
  found there under the name \<open>k\<close> (for \<^verbatim>\<open>constructor\<close> the function \<^verbatim>\<open>Object\<close>); any other
  name yields \<^verbatim>\<open>undefined\<close>.
\<close>

type_synonym DfgRequest = "string \<rightharpoonup> json"
type_synonym FuzzyRequest = "string \<rightharpoonup> json"

definition objectPrototypeKeys :: "string list" where
  "objectPrototypeKeys =
     [''constructor'', ''__defineGetter__'', ''__defineSetter__'', ''hasOwnProperty'',
      ''__lookupGetter__'', ''__lookupSetter__'', ''isPrototypeOf'', ''propertyIsEnumerable'',
      ''toString'', ''valueOf'', ''__proto__'', ''toLocaleString'']"

definition readProp :: "(string \<rightharpoonup> json) \<Rightarrow> string \<Rightarrow> json" where
  "readProp obj k =
     (case obj k of
        Some v \<Rightarrow> v
      | None \<Rightarrow> if k \<in> set objectPrototypeKeys then JInherited k else JUndefined)"

text \<open>
  Modelled from the spec: the enum \<^verbatim>\<open>AlgorithmTypes\<close> of \<^verbatim>\<open>models/graph\<close> is not among
  the sources; the selector is DFG or fuzzy.
\<close>

datatype AlgorithmTypes = Dfg | Fuzzy

text \<open>
  Modelled from the spec: the enum \<^verbatim>\<open>GraphValues\<close> of \<^verbatim>\<open>models/graph\<close> is not among the
  sources; only its member \<^verbatim>\<open>CaseCount\<close> is named. Any other member is \<open>OtherGraphValue\<close>.
\<close>

datatype GraphValues = CaseCount | OtherGraphValue nat

text \<open>
  Modelled from the spec: \<^verbatim>\<open>ViewDraft\<close>, \<^verbatim>\<open>Graph\<close> and \<^verbatim>\<open>GraphParameters\<close> are declared in
  \<^verbatim>\<open>models/graph\<close>. The slice reads \<^verbatim>\<open>draft.id\<close> (undefined on the initial \<^verbatim>\<open>{}\<close>),
  \<^verbatim>\<open>graph.metrics\<close>, and of a parameter its id, method, key and value.
\<close>

record ViewDraft =
  draftId :: "string option"
  draftFields :: json

record Graph =
  metrics :: json
  graphFields :: json

record GraphParameters =
  id' :: string
  method' :: string
  key :: string
  value' :: json

record EdgeWidth =
  minWidth :: real
  maxWidth :: real

record GraphState =
  isLoading :: bool
  error :: string
  viewId :: string
  draft :: ViewDraft
  graph :: "Graph option"
  dfgFilters :: DfgRequest
  fuzzyFilters :: FuzzyRequest
  userParams :: "GraphParameters list"
  algorithmType :: AlgorithmTypes
  graphMetrics :: json
  nodeEdgeMetrics :: json
  isSidebar :: bool
  graphSidebarTabIndex :: int
  width :: EdgeWidth
  graphValue :: GraphValues
  onPercent :: bool
  nodeEdgeHighlighting :: json

definition initialDfgFilters :: DfgRequest where
  "initialDfgFilters =
     [''activity-frequency'' \<mapsto> JNum 1, ''variant-frequency'' \<mapsto> JNum 1]"

definition initialFuzzyFilters :: FuzzyRequest where
  "initialFuzzyFilters =
     [''concurrency'' \<mapsto> JBool False,
      ''concurrency-offset'' \<mapsto> JNum 1,
      ''concurrency-preserve'' \<mapsto> JNum 1,
      ''edge-ignore-self-loops'' \<mapsto> JBool False,
      ''edge-interpret-abs'' \<mapsto> JBool False,
      ''edge-preserve'' \<mapsto> JNum 1,
      ''edge-sc-ratio'' \<mapsto> JNum 1,
      ''node-cut-off'' \<mapsto> JNum (1 / 1000)]"

text \<open>
  The two edge-width constants come from \<^verbatim>\<open>app/config\<close>, which is not among the sources:
  they are parameters of the initial state.
\<close>

definition initialState :: "real \<Rightarrow> real \<Rightarrow> GraphState" where
  "initialState GRAPH_EDGE_MIN_WIDTH GRAPH_EDGE_MAX_WIDTH =
     \<lparr> isLoading = False,
       error = '''',
       viewId = '''',
       draft = \<lparr> draftId = None, draftFields = JObj [] \<rparr>,
       graph = Some \<lparr> metrics = JUndefined, graphFields = JObj [] \<rparr>,
       dfgFilters = initialDfgFilters,
       fuzzyFilters = initialFuzzyFilters,
       userParams = [],
       algorithmType = Dfg,
       graphMetrics = JObj [],
       nodeEdgeMetrics = JObj [],
       isSidebar = False,
       graphSidebarTabIndex = 0,
       width = \<lparr> minWidth = GRAPH_EDGE_MIN_WIDTH, maxWidth = GRAPH_EDGE_MAX_WIDTH \<rparr>,
       graphValue = CaseCount,
       onPercent = False,
       nodeEdgeHighlighting = JObj [] \<rparr>"

section \<open>Event vocabulary\<close>

text \<open>
  One constructor per action creator of the slice, plus \<open>AuthLogout\<close>, the action of
  the auth slice that \<^verbatim>\<open>handleError\<close> emits. \<^verbatim>\<open>setGraph(null)\<close> is \<open>SetGraph None\<close>.
\<close>

datatype Action =
    GetFailed string
  | CreateDraft string
  | SetDraft ViewDraft
  | SaveDraft
  | SaveDraftComplete
  | SetAlgorithmType AlgorithmTypes
  | SetDfgFilters DfgRequest
  | SetFuzzyFilters FuzzyRequest
  | GetGraph
  | SetGraph "Graph option"
  | SetUserParams "GraphParameters list"
  | SetGraphMetrics json
  | SetNodeEdgeMetrics json
  | SetNodeEdgeHighlighting json
  | ResetNodeEdgeMetrics
  | ToggleSidebar
  | ToggleMetrics int
  | ChangeEdgeWidth EdgeWidth
  | ChangeGraphValue GraphValues
  | ToggleOnPercent bool
  | ResetDraft
  | ResetGraph
  | ResetGraphFilters
  | ResetGraphMetrics
  | ResetNodeEdgeHighlighting
  | ResetGraphCommonParams
  | AuthLogout

section \<open>State container: the reducers of \<^verbatim>\<open>graphSlice\<close>\<close>

definition getFailed :: "GraphState \<Rightarrow> string \<Rightarrow> GraphState" where
  "getFailed state payload = state\<lparr> isLoading := False, error := payload \<rparr>"

definition createDraft :: "GraphState \<Rightarrow> string \<Rightarrow> GraphState" where
  "createDraft state payload = state\<lparr> isLoading := True, viewId := payload, error := '''' \<rparr>"

definition setDraft :: "GraphState \<Rightarrow> ViewDraft \<Rightarrow> GraphState" where
  "setDraft state payload = state\<lparr> isLoading := False, draft := payload \<rparr>"

definition saveDraft :: "GraphState \<Rightarrow> GraphState" where
  "saveDraft state = state\<lparr> isLoading := True, error := '''' \<rparr>"

definition saveDraftComplete :: "GraphState \<Rightarrow> GraphState" where
  "saveDraftComplete state = state\<lparr> isLoading := True, error := '''' \<rparr>"

definition setAlgorithmType :: "GraphState \<Rightarrow> AlgorithmTypes \<Rightarrow> GraphState" where
  "setAlgorithmType state payload = state\<lparr> algorithmType := payload \<rparr>"

definition setDfgFilters :: "GraphState \<Rightarrow> DfgRequest \<Rightarrow> GraphState" where
  "setDfgFilters state payload = state\<lparr> dfgFilters := payload \<rparr>"

definition setFuzzyFilters :: "GraphState \<Rightarrow> FuzzyRequest \<Rightarrow> GraphState" where
  "setFuzzyFilters state payload = state\<lparr> fuzzyFilters := payload \<rparr>"

definition getGraph :: "GraphState \<Rightarrow> GraphState" where
  "getGraph state = state\<lparr> isLoading := True, error := '''' \<rparr>"

definition setGraph :: "GraphState \<Rightarrow> Graph option \<Rightarrow> GraphState" where
  "setGraph state payload = state\<lparr> isLoading := False, graph := payload \<rparr>"

definition setUserParams :: "GraphState \<Rightarrow> GraphParameters list \<Rightarrow> GraphState" where
  "setUserParams state payload = state\<lparr> userParams := payload \<rparr>"

definition setGraphMetrics :: "GraphState \<Rightarrow> json \<Rightarrow> GraphState" where
  "setGraphMetrics state payload = state\<lparr> graphMetrics := payload \<rparr>"

definition setNodeEdgeMetrics :: "GraphState \<Rightarrow> json \<Rightarrow> GraphState" where
  "setNodeEdgeMetrics state payload = state\<lparr> nodeEdgeMetrics := payload \<rparr>"

definition setNodeEdgeHighlighting :: "GraphState \<Rightarrow> json \<Rightarrow> GraphState" where
  "setNodeEdgeHighlighting state payload = state\<lparr> nodeEdgeHighlighting := payload \<rparr>"

definition resetNodeEdgeMetrics :: "GraphState \<Rightarrow> GraphState \<Rightarrow> GraphState" where
  "resetNodeEdgeMetrics init state =
     (let s1 = state\<lparr> nodeEdgeMetrics := nodeEdgeMetrics init \<rparr>;
          s2 = (if isSidebar s1 then s1\<lparr> isSidebar := False \<rparr> else s1)
      in s2\<lparr> graphSidebarTabIndex := 0 \<rparr>)"

definition toggleSidebar :: "GraphState \<Rightarrow> GraphState" where
  "toggleSidebar state = state\<lparr> isSidebar := \<not> isSidebar state \<rparr>"

definition toggleMetrics :: "GraphState \<Rightarrow> int \<Rightarrow> GraphState" where
  "toggleMetrics state payload =
     (let s1 = state\<lparr> graphSidebarTabIndex := payload \<rparr>
      in if \<not> isSidebar s1 then s1\<lparr> isSidebar := True \<rparr> else s1)"

definition changeEdgeWidth :: "GraphState \<Rightarrow> EdgeWidth \<Rightarrow> GraphState" where
  "changeEdgeWidth state payload = state\<lparr> isLoading := False, width := payload \<rparr>"

definition changeGraphValue :: "GraphState \<Rightarrow> GraphValues \<Rightarrow> GraphState" where
  "changeGraphValue state payload = state\<lparr> isLoading := False, graphValue := payload \<rparr>"

definition toggleOnPercent :: "GraphState \<Rightarrow> bool \<Rightarrow> GraphState" where
  "toggleOnPercent state payload = state\<lparr> isLoading := False, onPercent := payload \<rparr>"

definition resetDraft :: "GraphState \<Rightarrow> GraphState \<Rightarrow> GraphState" where
  "resetDraft init state = state\<lparr> draft := draft init \<rparr>"

definition resetGraph :: "GraphState \<Rightarrow> GraphState \<Rightarrow> GraphState" where
  "resetGraph init state = state\<lparr> graph := graph init \<rparr>"

definition resetGraphFilters :: "GraphState \<Rightarrow> GraphState \<Rightarrow> GraphState" where
  "resetGraphFilters init state = state\<lparr> dfgFilters := dfgFilters init \<rparr>"

definition resetGraphMetrics :: "GraphState \<Rightarrow> GraphState \<Rightarrow> GraphState" where
  "resetGraphMetrics init state = state\<lparr> graphMetrics := graphMetrics init \<rparr>"

definition resetNodeEdgeHighlighting :: "GraphState \<Rightarrow> GraphState \<Rightarrow> GraphState" where
  "resetNodeEdgeHighlighting init state =
     state\<lparr> nodeEdgeHighlighting := nodeEdgeHighlighting init \<rparr>"

definition resetGraphCommonParams :: "GraphState \<Rightarrow> GraphState \<Rightarrow> GraphState" where
  "resetGraphCommonParams init state =
     state\<lparr> isSidebar := isSidebar init,
            width := width init,
            graphValue := graphValue init,
            algorithmType := algorithmType init \<rparr>"

text \<open>
  \<^verbatim>\<open>graphReducer\<close>: the case reducer registered for the action's type is applied; an action
  of another slice (\<open>AuthLogout\<close>) matches no case and the state is returned as it is.
  The first argument is the slice's \<^verbatim>\<open>initialState\<close>, which the reset reducers read.
\<close>

fun graphReducer :: "GraphState \<Rightarrow> GraphState \<Rightarrow> Action \<Rightarrow> GraphState" where
  "graphReducer init state (GetFailed p) = getFailed state p"
| "graphReducer init state (CreateDraft p) = createDraft state p"
| "graphReducer init state (SetDraft p) = setDraft state p"
| "graphReducer init state SaveDraft = saveDraft state"
| "graphReducer init state SaveDraftComplete = saveDraftComplete state"
| "graphReducer init state (SetAlgorithmType p) = setAlgorithmType state p"
| "graphReducer init state (SetDfgFilters p) = setDfgFilters state p"
| "graphReducer init state (SetFuzzyFilters p) = setFuzzyFilters state p"
| "graphReducer init state GetGraph = getGraph state"
| "graphReducer init state (SetGraph p) = setGraph state p"
| "graphReducer init state (SetUserParams p) = setUserParams state p"
| "graphReducer init state (SetGraphMetrics p) = setGraphMetrics state p"
| "graphReducer init state (SetNodeEdgeMetrics p) = setNodeEdgeMetrics state p"
| "graphReducer init state (SetNodeEdgeHighlighting p) = setNodeEdgeHighlighting state p"
| "graphReducer init state ResetNodeEdgeMetrics = resetNodeEdgeMetrics init state"
| "graphReducer init state ToggleSidebar = toggleSidebar state"
| "graphReducer init state (ToggleMetrics p) = toggleMetrics state p"
| "graphReducer init state (ChangeEdgeWidth p) = changeEdgeWidth state p"
| "graphReducer init state (ChangeGraphValue p) = changeGraphValue state p"
| "graphReducer init state (ToggleOnPercent p) = toggleOnPercent state p"
| "graphReducer init state ResetDraft = resetDraft init state"
| "graphReducer init state ResetGraph = resetGraph init state"
| "graphReducer init state ResetGraphFilters = resetGraphFilters init state"
| "graphReducer init state ResetGraphMetrics = resetGraphMetrics init state"
| "graphReducer init state ResetNodeEdgeHighlighting = resetNodeEdgeHighlighting init state"
| "graphReducer init state ResetGraphCommonParams = resetGraphCommonParams init state"
| "graphReducer init state AuthLogout = state"

section \<open>Remote gateway and the shared error translator\<close>

text \<open>
  The operations of \<^verbatim>\<open>api/graph-api\<close> are not among the sources. A call is recorded by its
  name and arguments; what it answers is an input of the model.
\<close>

datatype RemoteCall =
    PostViewDraft string
  | PatchDraftParameter string GraphParameters
  | PostDraft "string option"
  | PostDfg "string option" DfgRequest
  | PostFuzzy "string option" FuzzyRequest
  | GetDraftParams "string option"

text \<open>
  What \<^verbatim>\<open>catchError\<close> receives: \<^verbatim>\<open>error.status\<close> (absent on an error that is not an
  \<^verbatim>\<open>AjaxError\<close>, such as the \<^verbatim>\<open>TimeoutError\<close> of \<^verbatim>\<open>timeout\<close>) and \<^verbatim>\<open>error.toString()\<close>.
\<close>

record AjaxError =
  status :: "int option"
  toString :: string

definition timeoutError :: AjaxError where
  "timeoutError = \<lparr> status = None, toString = ''TimeoutError: Timeout has occurred'' \<rparr>"

text \<open>\<^verbatim>\<open>of(x)\<close> delivers \<open>x\<close> and completes: the list of the actions delivered.\<close>

definition handleError :: "AjaxError \<Rightarrow> Action list" where
  "handleError err =
     (if status err = Some 401 then [AuthLogout]
      else if status err = Some 500 \<or> status err = Some 404 then [SetGraph None]
      else [GetFailed (toString err)])"

section \<open>Orchestration pipeline: the epics\<close>

text \<open>
  An epic is a machine over what it observes. \<open>Dispatched a s\<close>: the action \<open>a\<close> arrives
  on \<^verbatim>\<open>action$\<close>, the reducers have run and \<open>s\<close> is the latest value of \<^verbatim>\<open>state$\<close>
  (the slice \<^verbatim>\<open>state.graph\<close>). \<open>Settled n r\<close>: remote call number \<open>n\<close> answers, \<open>Inr\<close> with
  its value (it then completes) or \<open>Inl\<close> with its error. \<open>Elapsed\<close>: time passes and
  nothing else happens.

  What a step does is a list of effects: a remote call is subscribed to under the next
  free number, a call is unsubscribed from (whatever it answers later is not observed),
  the epic's output delivers an action, or the epic's output terminates with an error.
\<close>

datatype 'r Input =
    Dispatched Action GraphState
  | Settled nat "AjaxError + 'r"
  | Elapsed

datatype Effect =
    Subscribe nat RemoteCall
  | Unsubscribe nat
  | Emit Action
  | Throw AjaxError

fun run :: "('s \<Rightarrow> 'i \<Rightarrow> 's \<times> Effect list) \<Rightarrow> 's \<Rightarrow> 'i list \<Rightarrow> 's \<times> Effect list" where
  "run f s [] = (s, [])"
| "run f s (x # xs) =
     (case f s x of (s', e) \<Rightarrow> (case run f s' xs of (s'', es) \<Rightarrow> (s'', e @ es)))"

fun calls :: "Effect list \<Rightarrow> (nat \<times> RemoteCall) list" where
  "calls [] = []"
| "calls (Subscribe n c # es) = (n, c) # calls es"
| "calls (_ # es) = calls es"

fun emitted :: "Effect list \<Rightarrow> Action list" where
  "emitted [] = []"
| "emitted (Emit a # es) = a # emitted es"
| "emitted (_ # es) = emitted es"

text \<open>The \<^verbatim>\<open>match\<close> predicates of the action creators used in \<^verbatim>\<open>filter\<close>.\<close>

definition createDraft_match :: "Action \<Rightarrow> bool" where
  "createDraft_match a = (case a of CreateDraft _ \<Rightarrow> True | _ \<Rightarrow> False)"

definition saveDraft_match :: "Action \<Rightarrow> bool" where
  "saveDraft_match a = (case a of SaveDraft \<Rightarrow> True | _ \<Rightarrow> False)"

definition saveDraftComplete_match :: "Action \<Rightarrow> bool" where
  "saveDraftComplete_match a = (case a of SaveDraftComplete \<Rightarrow> True | _ \<Rightarrow> False)"

definition setDraft_match :: "Action \<Rightarrow> bool" where
  "setDraft_match a = (case a of SetDraft _ \<Rightarrow> True | _ \<Rightarrow> False)"

definition setAlgorithmType_match :: "Action \<Rightarrow> bool" where
  "setAlgorithmType_match a = (case a of SetAlgorithmType _ \<Rightarrow> True | _ \<Rightarrow> False)"

definition getGraph_match :: "Action \<Rightarrow> bool" where
  "getGraph_match a = (case a of GetGraph \<Rightarrow> True | _ \<Rightarrow> False)"

definition setUserParams_match :: "Action \<Rightarrow> bool" where
  "setUserParams_match a = (case a of SetUserParams _ \<Rightarrow> True | _ \<Rightarrow> False)"

subsection \<open>\<^verbatim>\<open>switchMap\<close>\<close>

text \<open>
  \<^verbatim>\<open>switchMap\<close> keeps at most one inner subscription: \<open>active\<close> is the number of the call
  it is subscribed to, \<open>issued\<close> the number of calls started so far. A new outer value
  unsubscribes from the active call and subscribes to the new one.
\<close>

record Switch =
  issued :: nat
  active :: "nat option"

definition switchTo :: "nat option \<Rightarrow> nat \<Rightarrow> RemoteCall \<Rightarrow> Effect list" where
  "switchTo act n c = (case act of None \<Rightarrow> [] | Some k \<Rightarrow> [Unsubscribe k]) @ [Subscribe n c]"

definition initSwitch :: Switch where
  "initSwitch = \<lparr> issued = 0, active = None \<rparr>"

subsection \<open>\<^verbatim>\<open>draftEpic\<close>\<close>

text \<open>
  \<^verbatim>\<open>filter(createDraft.match), withLatestFrom(state$), switchMap(([, state]) =>
  postViewDraft(state.graph.viewId).pipe(map(setDraft), catchError(handleError)))\<close>.
  The inner pipe turns the call's answer into actions and completes; an answer of a call
  that is no longer the active one is not observed.
\<close>

fun draftEpic :: "Switch \<Rightarrow> ViewDraft Input \<Rightarrow> Switch \<times> Effect list" where
  "draftEpic st (Dispatched a state) =
     (if createDraft_match a
      then (\<lparr> issued = Suc (issued st), active = Some (issued st) \<rparr>,
            switchTo (active st) (issued st) (PostViewDraft (viewId state)))
      else (st, []))"
| "draftEpic st (Settled n r) =
     (if active st = Some n
      then (st\<lparr> active := None \<rparr>,
            (case r of
               Inr data \<Rightarrow> [Emit (SetDraft data)]
             | Inl err \<Rightarrow> map Emit (handleError err)))
      else (st, []))"
| "draftEpic st Elapsed = (st, [])"

subsection \<open>\<^verbatim>\<open>saveDraftCompleteEpic\<close>\<close>

fun saveDraftCompleteEpic :: "Switch \<Rightarrow> unit Input \<Rightarrow> Switch \<times> Effect list" where
  "saveDraftCompleteEpic st (Dispatched a state) =
     (if saveDraftComplete_match a
      then (\<lparr> issued = Suc (issued st), active = Some (issued st) \<rparr>,
            switchTo (active st) (issued st) (PostDraft (draftId (draft state))))
      else (st, []))"
| "saveDraftCompleteEpic st (Settled n r) =
     (if active st = Some n
      then (st\<lparr> active := None \<rparr>,
            (case r of
               Inr _ \<Rightarrow> [Emit ResetDraft]
             | Inl err \<Rightarrow> map Emit (handleError err)))
      else (st, []))"
| "saveDraftCompleteEpic st Elapsed = (st, [])"

subsection \<open>\<^verbatim>\<open>graphUserParametersEpic\<close>\<close>

fun graphUserParametersEpic ::
  "Switch \<Rightarrow> GraphParameters list Input \<Rightarrow> Switch \<times> Effect list" where
  "graphUserParametersEpic st (Dispatched a state) =
     (if setDraft_match a
      then (\<lparr> issued = Suc (issued st), active = Some (issued st) \<rparr>,
            switchTo (active st) (issued st) (GetDraftParams (draftId (draft state))))
      else (st, []))"
| "graphUserParametersEpic st (Settled n r) =
     (if active st = Some n
      then (st\<lparr> active := None \<rparr>,
            (case r of
               Inr response \<Rightarrow> [Emit (SetUserParams response)]
             | Inl err \<Rightarrow> map Emit (handleError err)))
      else (st, []))"
| "graphUserParametersEpic st Elapsed = (st, [])"

subsection \<open>\<^verbatim>\<open>setDraftEpic\<close>, \<^verbatim>\<open>setAlgorithmTypeEpic\<close>, \<^verbatim>\<open>graphParametersEpic\<close>\<close>

text \<open>
  These three keep nothing between actions and call nothing: \<^verbatim>\<open>mergeMapTo\<close> over an array,
  \<^verbatim>\<open>mapTo\<close>, and \<^verbatim>\<open>mergeMap\<close> to an array deliver their actions at once.
\<close>

definition setDraftEpic :: "GraphState \<Rightarrow> Action \<Rightarrow> Action list" where
  "setDraftEpic init a =
     (if setDraft_match a
      then [SetDfgFilters (dfgFilters init), SetFuzzyFilters (fuzzyFilters init), GetGraph]
      else [])"

definition setAlgorithmTypeEpic :: "Action \<Rightarrow> Action list" where
  "setAlgorithmTypeEpic a = (if setAlgorithmType_match a then [GetGraph] else [])"

text \<open>
  \<^verbatim>\<open>Object.fromEntries\<close> defines the properties in the order of the entries: of two
  entries with one key the later one stays.
\<close>

fun fromEntries :: "(string \<times> json) list \<Rightarrow> (string \<rightharpoonup> json)" where
  "fromEntries [] = Map.empty"
| "fromEntries ((k, v) # es) = (\<lambda>x. case fromEntries es x of Some w \<Rightarrow> Some w
                                    | None \<Rightarrow> if x = k then Some v else None)"

definition objParams :: "GraphState \<Rightarrow> (string \<rightharpoonup> json)" where
  "objParams state = fromEntries (map (\<lambda>parameter. (key parameter, value' parameter)) (userParams state))"

definition graphParametersEpic :: "Action \<Rightarrow> GraphState \<Rightarrow> Action list" where
  "graphParametersEpic a state =
     (if setUserParams_match a
      then [SetDfgFilters (objParams state), SetFuzzyFilters (objParams state)]
      else [])"

subsection \<open>\<^verbatim>\<open>graphEpic\<close>\<close>

text \<open>
  Time is in milliseconds and every input carries the time at which it happens.
  \<^verbatim>\<open>debounceTime(1000)\<close> holds the last trigger and a timer, \<open>due\<close>, restarted by each
  trigger; \<^verbatim>\<open>withLatestFrom(state$)\<close> sits after it and holds the latest state, \<open>seen\<close>.
  When the timer runs, the held trigger goes on to \<^verbatim>\<open>switchMap\<close> with the state seen at
  that moment. A timer due at \<open>d\<close> runs before an input of time \<open>t \<ge> d\<close> is handled.

  The call answers with a graph object or with \<^verbatim>\<open>null\<close> (\<open>None\<close>). On \<^verbatim>\<open>null\<close> the read
  \<^verbatim>\<open>data.metrics\<close> in \<^verbatim>\<open>mergeMap\<close> throws a \<^verbatim>\<open>TypeError\<close> before anything is delivered, and
  \<^verbatim>\<open>catchError(handleError)\<close> receives it: it has no status, and its text is the engine's
  (here the wording of V8).
\<close>

definition nullMetricsError :: AjaxError where
  "nullMetricsError =
     \<lparr> status = None,
       toString = ''TypeError: Cannot read properties of null (reading 'metrics')'' \<rparr>"

record GraphEpic = Switch +
  seen :: GraphState
  due :: "nat option"

definition initGraphEpic :: "GraphState \<Rightarrow> GraphEpic" where
  "initGraphEpic state = \<lparr> issued = 0, active = None, seen = state, due = None \<rparr>"

definition graphCall :: "GraphState \<Rightarrow> RemoteCall" where
  "graphCall state =
     (if algorithmType state = Dfg
      then PostDfg (draftId (draft state)) (dfgFilters state)
      else PostFuzzy (draftId (draft state)) (fuzzyFilters state))"

definition release :: "nat \<Rightarrow> GraphEpic \<Rightarrow> GraphEpic \<times> Effect list" where
  "release t st =
     (case due st of
        None \<Rightarrow> (st, [])
      | Some d \<Rightarrow>
          if d \<le> t
          then (st\<lparr> issued := Suc (issued st), active := Some (issued st), due := None \<rparr>,
                switchTo (active st) (issued st) (graphCall (seen st)))
          else (st, []))"

fun graphInput :: "GraphEpic \<Rightarrow> nat \<Rightarrow> Graph option Input \<Rightarrow> GraphEpic \<times> Effect list" where
  "graphInput st t (Dispatched a state) =
     (st\<lparr> seen := state, due := (if getGraph_match a then Some (t + 1000) else due st) \<rparr>, [])"
| "graphInput st t (Settled n r) =
     (if active st = Some n
      then (st\<lparr> active := None \<rparr>,
            (case r of
               Inr (Some data) \<Rightarrow>
                 [Emit (SetGraph (Some data)), Emit (SetGraphMetrics (metrics data))]
             | Inr None \<Rightarrow> map Emit (handleError nullMetricsError)
             | Inl err \<Rightarrow> map Emit (handleError err)))
      else (st, []))"
| "graphInput st t Elapsed = (st, [])"

definition graphEpic ::
  "GraphEpic \<Rightarrow> nat \<times> Graph option Input \<Rightarrow> GraphEpic \<times> Effect list" where
  "graphEpic st x =
     (case release (fst x) st of
        (st1, e1) \<Rightarrow> (case graphInput st1 (fst x) (snd x) of (st2, e2) \<Rightarrow> (st2, e1 @ e2)))"

subsection \<open>\<^verbatim>\<open>saveDraftEpic\<close>\<close>

definition newUserParams :: "GraphState \<Rightarrow> GraphParameters list" where
  "newUserParams state =
     map (\<lambda>userParam. userParam\<lparr> value' :=
            (if method' userParam = ''fuzzy''
             then readProp (fuzzyFilters state) (key userParam)
             else readProp (dfgFilters state) (key userParam)) \<rparr>)
         (userParams state)"

text \<open>
  \<^verbatim>\<open>forkJoin(...observables, () => saveDraftComplete())\<close> subscribes to every observable at
  once, and calls the selector when each has delivered a value and completed; with no
  observable it completes without calling it. Each observable carries \<^verbatim>\<open>timeout(1000)\<close>
  from the common moment of subscription, \<open>deadline\<close>. There is no \<^verbatim>\<open>catchError\<close> in this
  epic: an error of one observable is the error of \<^verbatim>\<open>forkJoin\<close>, of \<^verbatim>\<open>switchMap\<close> and of the
  epic's output, which is then \<open>terminated\<close> and observes nothing more. The error is
  delivered first and the other calls are unsubscribed from after it; \<^verbatim>\<open>timeout\<close> itself
  unsubscribes from its own call, the first one pending, before it raises the error.
  \<open>pending\<close> are the calls of the running \<^verbatim>\<open>forkJoin\<close> that have not answered.
\<close>

record SaveEpic =
  started :: nat
  pending :: "nat list"
  deadline :: nat
  terminated :: bool

definition initSaveEpic :: SaveEpic where
  "initSaveEpic = \<lparr> started = 0, pending = [], deadline = 0, terminated = False \<rparr>"

fun saveInput :: "SaveEpic \<Rightarrow> nat \<Rightarrow> unit Input \<Rightarrow> SaveEpic \<times> Effect list" where
  "saveInput st t (Dispatched a state) =
     (if saveDraft_match a
      then (let ps = newUserParams state;
                ns = [started st ..< started st + length ps]
            in (st\<lparr> started := started st + length ps, pending := ns, deadline := t + 1000 \<rparr>,
                map Unsubscribe (pending st) @
                map (\<lambda>(n, userParam). Subscribe n (PatchDraftParameter (id' userParam) userParam))
                    (zip ns ps)))
      else (st, []))"
| "saveInput st t (Settled n r) =
     (if n \<in> set (pending st)
      then (case r of
              Inr _ \<Rightarrow>
                (let rest = removeAll n (pending st)
                 in (st\<lparr> pending := rest \<rparr>, if rest = [] then [Emit SaveDraftComplete] else []))
            | Inl err \<Rightarrow>
                (st\<lparr> pending := [], terminated := True \<rparr>,
                 Throw err # map Unsubscribe (removeAll n (pending st))))
      else (st, []))"
| "saveInput st t Elapsed = (st, [])"

definition saveDraftEpic :: "SaveEpic \<Rightarrow> nat \<times> unit Input \<Rightarrow> SaveEpic \<times> Effect list" where
  "saveDraftEpic st x =
     (if terminated st then (st, [])
      else if pending st \<noteq> [] \<and> deadline st \<le> fst x
      then (st\<lparr> pending := [], terminated := True \<rparr>,
            Unsubscribe (hd (pending st)) # Throw timeoutError #
            map Unsubscribe (tl (pending st)))
      else saveInput st (fst x) (snd x))"

section \<open>Notions used in the statements\<close>

text \<open>The store applies the reducer to actions in the order in which they are dispatched.\<close>

definition reduce :: "GraphState \<Rightarrow> GraphState \<Rightarrow> Action list \<Rightarrow> GraphState" where
  "reduce init state as = foldl (graphReducer init) state as"

text \<open>
  Call \<open>n\<close> has been started, and \<^verbatim>\<open>switchMap\<close> is subscribed to a later call or to none.
\<close>

definition superseded :: "nat \<Rightarrow> Switch \<Rightarrow> bool" where
  "superseded n st = (n < issued st \<and> (case active st of None \<Rightarrow> True | Some k \<Rightarrow> n < k))"

text \<open>A remote call's answer is a failure with the unauthorized status.\<close>

definition unauthorized :: "AjaxError + 'r \<Rightarrow> bool" where
  "unauthorized r = (case r of Inl err \<Rightarrow> status err = Some 401 | Inr _ \<Rightarrow> False)"

text \<open>At time \<open>t\<close> the debounce timer of \<^verbatim>\<open>graphEpic\<close> is not set or not yet due.\<close>

definition timerIdle :: "GraphEpic \<Rightarrow> nat \<Rightarrow> bool" where
  "timerIdle st t = (case due st of None \<Rightarrow> True | Some d \<Rightarrow> t < d)"

text \<open>
  A burst: every input comes less than 1000 ms after the \<^verbatim>\<open>getGraph\<close> trigger before it
  (\<open>prev\<close> is the time of that trigger). \<open>lastTrigger\<close> is the time of the last trigger of
  the inputs and \<open>latestState\<close> the state that comes with their last action.
\<close>

definition isTrigger :: "Graph option Input \<Rightarrow> bool" where
  "isTrigger inp = (case inp of Dispatched a _ \<Rightarrow> getGraph_match a | _ \<Rightarrow> False)"

fun withinBurst :: "nat option \<Rightarrow> (nat \<times> Graph option Input) list \<Rightarrow> bool" where
  "withinBurst prev [] = True"
| "withinBurst prev ((t, inp) # xs) =
     ((case prev of None \<Rightarrow> True | Some p \<Rightarrow> t < p + 1000)
      \<and> withinBurst (if isTrigger inp then Some t else prev) xs)"

fun lastTrigger :: "nat option \<Rightarrow> (nat \<times> Graph option Input) list \<Rightarrow> nat option" where
  "lastTrigger prev [] = prev"
| "lastTrigger prev ((t, inp) # xs) = lastTrigger (if isTrigger inp then Some t else prev) xs"

fun latestState :: "GraphState \<Rightarrow> (nat \<times> Graph option Input) list \<Rightarrow> GraphState" where
  "latestState s [] = s"
| "latestState s ((t, inp) # xs) =
     latestState (case inp of Dispatched _ state \<Rightarrow> state | _ \<Rightarrow> s) xs"

text \<open>
  The round trip of a parameter list \<open>ps\<close>: \<^verbatim>\<open>setUserParams(ps)\<close> is reduced,
  \<^verbatim>\<open>graphParametersEpic\<close> projects the list into the two filter actions, these are reduced,
  and \<^verbatim>\<open>saveDraftEpic\<close> merges the filter sets back into the list.
\<close>

definition roundTrip :: "GraphState \<Rightarrow> GraphState \<Rightarrow> GraphParameters list \<Rightarrow> GraphParameters list" where
  "roundTrip init state ps =
     newUserParams
       (reduce init (setUserParams state ps)
          (graphParametersEpic (SetUserParams ps) (setUserParams state ps)))"

section \<open>Properties\<close>

subsection \<open>Runs\<close>

lemma run_append:
  "run f s (xs @ ys) =
     (case run f s xs of (s', es) \<Rightarrow> (case run f s' ys of (s'', es') \<Rightarrow> (s'', es @ es')))"
  by (induction xs arbitrary: s) (auto split: prod.splits)

lemma fst_run_append: "fst (run f s (xs @ ys)) = fst (run f (fst (run f s xs)) ys)"
  by (simp add: run_append split: prod.splits)

lemma fst_run_Cons: "fst (run f s (x # xs)) = fst (run f (fst (f s x)) xs)"
  by (simp split: prod.splits)

subsection \<open>Draft-creation workflow\<close>

lemma draftEpic_issued_mono: "n < issued st \<Longrightarrow> n < issued (fst (draftEpic st x))"
  by (cases x) auto

lemma draftEpic_run_issued_mono: "n < issued st \<Longrightarrow> n < issued (fst (run draftEpic st xs))"
proof (induction xs arbitrary: st)
  case Nil
  then show ?case by simp
next
  case (Cons x xs)
  have "n < issued (fst (draftEpic st x))"
    using Cons.prems by (rule draftEpic_issued_mono)
  then have "n < issued (fst (run draftEpic (fst (draftEpic st x)) xs))"
    by (rule Cons.IH)
  then show ?case by (simp only: fst_run_Cons)
qed

lemma draftEpic_superseded: "superseded n st \<Longrightarrow> superseded n (fst (draftEpic st x))"
  by (cases x) (auto simp: superseded_def split: option.splits)

lemma draftEpic_run_superseded: "superseded n st \<Longrightarrow> superseded n (fst (run draftEpic st xs))"
proof (induction xs arbitrary: st)
  case Nil
  then show ?case by simp
next
  case (Cons x xs)
  have "superseded n (fst (draftEpic st x))"
    using Cons.prems by (rule draftEpic_superseded)
  then have "superseded n (fst (run draftEpic (fst (draftEpic st x)) xs))"
    by (rule Cons.IH)
  then show ?case by (simp only: fst_run_Cons)
qed

lemma draftEpic_trigger_supersedes:
  "n < issued st \<Longrightarrow> superseded n (fst (draftEpic st (Dispatched (CreateDraft v) s)))"
  by (simp add: superseded_def createDraft_match_def)

lemma draftEpic_superseded_silent:
  "superseded n st \<Longrightarrow> draftEpic st (Settled n r) = (st, [])"
  by (auto simp: superseded_def split: option.splits)

text \<open>
  Claim C1. The draft-creation workflow is latest-wins. Let a \<^verbatim>\<open>createDraft\<close> trigger start
  call number \<open>issued st\<close>; after any inputs \<open>mid\<close>, let a second trigger arrive, followed by
  any inputs \<open>post\<close>. Then the answer of the first call, whatever it is, yields no effect:
  no \<^verbatim>\<open>setDraft\<close> and no other action. The answer of the call of the latest trigger
  is the one that yields \<^verbatim>\<open>setDraft\<close>.
\<close>

theorem draftEpic_latest_wins:
  "calls (snd (draftEpic st (Dispatched (CreateDraft v1) s1))) = [(issued st, PostViewDraft (viewId s1))]
   \<and> snd (draftEpic
            (fst (run draftEpic st
                   (Dispatched (CreateDraft v1) s1 # mid @ Dispatched (CreateDraft v2) s2 # post)))
            (Settled (issued st) r)) = []
   \<and> snd (draftEpic (fst (draftEpic st2 (Dispatched (CreateDraft v2) s2)))
            (Settled (issued st2) (Inr d))) = [Emit (SetDraft d)]"
proof (intro conjI)
  show "calls (snd (draftEpic st (Dispatched (CreateDraft v1) s1))) = [(issued st, PostViewDraft (viewId s1))]"
    by (cases "active st") (simp_all add: createDraft_match_def switchTo_def)
next
  show "snd (draftEpic (fst (draftEpic st2 (Dispatched (CreateDraft v2) s2)))
            (Settled (issued st2) (Inr d))) = [Emit (SetDraft d)]"
    by (simp add: createDraft_match_def)
next
  let ?n = "issued st"
  let ?st1 = "fst (draftEpic st (Dispatched (CreateDraft v1) s1))"
  let ?st2 = "fst (run draftEpic ?st1 mid)"
  let ?st3 = "fst (draftEpic ?st2 (Dispatched (CreateDraft v2) s2))"
  let ?st4 = "fst (run draftEpic ?st3 post)"
  have "?n < issued ?st1" by (simp add: createDraft_match_def)
  then have "?n < issued ?st2" by (rule draftEpic_run_issued_mono)
  then have "superseded ?n ?st3" by (rule draftEpic_trigger_supersedes)
  then have "superseded ?n ?st4" by (rule draftEpic_run_superseded)
  then have "draftEpic ?st4 (Settled ?n r) = (?st4, [])" by (rule draftEpic_superseded_silent)
  moreover have "fst (run draftEpic st
                   (Dispatched (CreateDraft v1) s1 # mid @ Dispatched (CreateDraft v2) s2 # post)) = ?st4"
    by (simp only: fst_run_Cons fst_run_append)
  ultimately show "snd (draftEpic
            (fst (run draftEpic st
                   (Dispatched (CreateDraft v1) s1 # mid @ Dispatched (CreateDraft v2) s2 # post)))
            (Settled (issued st) r)) = []"
    by simp
qed

subsection \<open>State container\<close>

text \<open>
  Claim C10. \<^verbatim>\<open>resetGraphFilters\<close> puts the initial DFG filter set into \<open>dfgFilters\<close> and
  leaves each of the other sixteen fields of the state, the fuzzy filter set among them,
  as it was.
\<close>

theorem resetGraphFilters_frame:
  "dfgFilters (graphReducer (initialState lo hi) state ResetGraphFilters) = initialDfgFilters
   \<and> fuzzyFilters (graphReducer (initialState lo hi) state ResetGraphFilters) = fuzzyFilters state
   \<and> isLoading (graphReducer (initialState lo hi) state ResetGraphFilters) = isLoading state
   \<and> error (graphReducer (initialState lo hi) state ResetGraphFilters) = error state
   \<and> viewId (graphReducer (initialState lo hi) state ResetGraphFilters) = viewId state
   \<and> draft (graphReducer (initialState lo hi) state ResetGraphFilters) = draft state
   \<and> graph (graphReducer (initialState lo hi) state ResetGraphFilters) = graph state
   \<and> userParams (graphReducer (initialState lo hi) state ResetGraphFilters) = userParams state
   \<and> algorithmType (graphReducer (initialState lo hi) state ResetGraphFilters) = algorithmType state
   \<and> graphMetrics (graphReducer (initialState lo hi) state ResetGraphFilters) = graphMetrics state
   \<and> nodeEdgeMetrics (graphReducer (initialState lo hi) state ResetGraphFilters) = nodeEdgeMetrics state
   \<and> isSidebar (graphReducer (initialState lo hi) state ResetGraphFilters) = isSidebar state
   \<and> graphSidebarTabIndex (graphReducer (initialState lo hi) state ResetGraphFilters) = graphSidebarTabIndex state
   \<and> width (graphReducer (initialState lo hi) state ResetGraphFilters) = width state
   \<and> graphValue (graphReducer (initialState lo hi) state ResetGraphFilters) = graphValue state
   \<and> onPercent (graphReducer (initialState lo hi) state ResetGraphFilters) = onPercent state
   \<and> nodeEdgeHighlighting (graphReducer (initialState lo hi) state ResetGraphFilters) = nodeEdgeHighlighting state"
  by (simp add: resetGraphFilters_def initialState_def)

subsection \<open>The shared error translator\<close>

text \<open>
  Claim C5. On status 401 \<^verbatim>\<open>handleError\<close> emits the session-expired action alone, and the
  state after it is the state before it. On status 404 or 500 it emits \<^verbatim>\<open>setGraph(null)\<close>
  alone; the graph becomes null and the stored error message stays as it was. On any
  other failure it emits \<^verbatim>\<open>getFailed\<close> with the error's text; the reducer then clears the
  loading flag and stores that text.
\<close>

theorem handleError_outcomes:
  "(status err = Some 401 \<longrightarrow>
      handleError err = [AuthLogout] \<and> reduce init state (handleError err) = state)
   \<and> (status err = Some 404 \<or> status err = Some 500 \<longrightarrow>
      handleError err = [SetGraph None]
      \<and> graph (reduce init state (handleError err)) = None
      \<and> error (reduce init state (handleError err)) = error state)
   \<and> (status err \<noteq> Some 401 \<and> status err \<noteq> Some 404 \<and> status err \<noteq> Some 500 \<longrightarrow>
      handleError err = [GetFailed (toString err)]
      \<and> isLoading (reduce init state (handleError err)) = False
      \<and> error (reduce init state (handleError err)) = toString err)"
  by (simp add: handleError_def reduce_def setGraph_def getFailed_def)

theorem handleError_outcomes_witness:
  "handleError \<lparr> status = Some 401, toString = ''AjaxError: ajax error 401'' \<rparr> = [AuthLogout]
   \<and> handleError \<lparr> status = Some 404, toString = ''AjaxError: ajax error 404'' \<rparr> = [SetGraph None]
   \<and> handleError \<lparr> status = Some 500, toString = ''AjaxError: ajax error 500'' \<rparr> = [SetGraph None]
   \<and> handleError timeoutError = [GetFailed ''TimeoutError: Timeout has occurred'']
   \<and> error (reduce (initialState 1 10) (getGraph (initialState 1 10)) (handleError timeoutError))
       = ''TimeoutError: Timeout has occurred''
   \<and> isLoading (reduce (initialState 1 10) (getGraph (initialState 1 10)) (handleError timeoutError))
       = False"
  using handleError_outcomes [of "\<lparr> status = Some 401, toString = ''AjaxError: ajax error 401'' \<rparr>"
      "initialState 1 10" "getGraph (initialState 1 10)"]
    handleError_outcomes [of "\<lparr> status = Some 404, toString = ''AjaxError: ajax error 404'' \<rparr>"
      "initialState 1 10" "getGraph (initialState 1 10)"]
    handleError_outcomes [of "\<lparr> status = Some 500, toString = ''AjaxError: ajax error 500'' \<rparr>"
      "initialState 1 10" "getGraph (initialState 1 10)"]
    handleError_outcomes [of timeoutError "initialState 1 10" "getGraph (initialState 1 10)"]
  by (simp add: timeoutError_def handleError_def reduce_def getFailed_def)

subsection \<open>Post-draft-load workflow\<close>

text \<open>
  Claim C8. For a \<^verbatim>\<open>setDraft\<close> action with any draft payload, \<^verbatim>\<open>setDraftEpic\<close> emits
  \<^verbatim>\<open>setDfgFilters\<close> with the initial DFG filter set, \<^verbatim>\<open>setFuzzyFilters\<close> with the initial
  fuzzy filter set and \<^verbatim>\<open>getGraph\<close>, these three and in this order.
\<close>

theorem setDraftEpic_unconditional:
  "setDraftEpic (initialState lo hi) (SetDraft d) =
     [SetDfgFilters initialDfgFilters, SetFuzzyFilters initialFuzzyFilters, GetGraph]"
  by (simp add: setDraftEpic_def setDraft_match_def initialState_def)

subsection \<open>Draft-save workflow\<close>

lemma emitted_Unsubscribe: "emitted (map Unsubscribe ns @ es) = emitted es"
  by (induction ns) simp_all

lemma calls_Unsubscribe: "calls (map Unsubscribe ns @ es) = calls es"
  by (induction ns) simp_all

text \<open>
  Claim C3. With an empty parameter list, \<^verbatim>\<open>saveDraft\<close> starts no call and the workflow
  is over at once. The code emits nothing then: no \<^verbatim>\<open>saveDraftComplete\<close> at the trigger,
  and none at any later answer or passing of time. From any state of the epic, the
  trigger starts no call and emits no action.
\<close>

theorem saveDraftEpic_no_params:
  "saveDraftEpic initSaveEpic (t, Dispatched SaveDraft (state\<lparr> userParams := [] \<rparr>)) =
     (initSaveEpic\<lparr> deadline := t + 1000 \<rparr>, [])
   \<and> saveDraftEpic (initSaveEpic\<lparr> deadline := t + 1000 \<rparr>) (t', Elapsed) =
     (initSaveEpic\<lparr> deadline := t + 1000 \<rparr>, [])
   \<and> saveDraftEpic (initSaveEpic\<lparr> deadline := t + 1000 \<rparr>) (t', Settled n r) =
     (initSaveEpic\<lparr> deadline := t + 1000 \<rparr>, [])
   \<and> emitted (snd (saveDraftEpic st (t, Dispatched SaveDraft (state\<lparr> userParams := [] \<rparr>)))) = []
   \<and> calls (snd (saveDraftEpic st (t, Dispatched SaveDraft (state\<lparr> userParams := [] \<rparr>)))) = []"
proof (intro conjI)
  show "emitted (snd (saveDraftEpic st (t, Dispatched SaveDraft (state\<lparr> userParams := [] \<rparr>)))) = []"
    using emitted_Unsubscribe [of "pending st" "[]"] emitted_Unsubscribe [of "tl (pending st)" "[]"]
    by (simp add: saveDraftEpic_def saveDraft_match_def newUserParams_def)
  show "calls (snd (saveDraftEpic st (t, Dispatched SaveDraft (state\<lparr> userParams := [] \<rparr>)))) = []"
    using calls_Unsubscribe [of "pending st" "[]"] calls_Unsubscribe [of "tl (pending st)" "[]"]
    by (simp add: saveDraftEpic_def saveDraft_match_def newUserParams_def)
qed (simp_all add: saveDraftEpic_def initSaveEpic_def saveDraft_match_def newUserParams_def)

text \<open>
  Claim C4. With one parameter, let its update call fail, or let 1000 ms pass without
  an answer. The code emits no action: the error of the call, or the timeout error, is
  thrown out of the epic's output, and the terminated epic yields nothing for any
  later input.
\<close>

theorem saveDraftEpic_failure_terminates:
  "run saveDraftEpic initSaveEpic
     [(t, Dispatched SaveDraft (state\<lparr> userParams := [p] \<rparr>)), (t + 1, Settled 0 (Inl err))] =
     (\<lparr> started = 1, pending = [], deadline = t + 1000, terminated = True \<rparr>,
      [Subscribe 0 (PatchDraftParameter (id' p)
         (p\<lparr> value' := (if method' p = ''fuzzy'' then readProp (fuzzyFilters state) (key p)
                          else readProp (dfgFilters state) (key p)) \<rparr>)),
       Throw err])
   \<and> run saveDraftEpic initSaveEpic
     [(t, Dispatched SaveDraft (state\<lparr> userParams := [p] \<rparr>)), (t + 1000, Elapsed)] =
     (\<lparr> started = 1, pending = [], deadline = t + 1000, terminated = True \<rparr>,
      [Subscribe 0 (PatchDraftParameter (id' p)
         (p\<lparr> value' := (if method' p = ''fuzzy'' then readProp (fuzzyFilters state) (key p)
                          else readProp (dfgFilters state) (key p)) \<rparr>)),
       Unsubscribe 0, Throw timeoutError])
   \<and> saveDraftEpic \<lparr> started = 1, pending = [], deadline = t + 1000, terminated = True \<rparr> x =
     (\<lparr> started = 1, pending = [], deadline = t + 1000, terminated = True \<rparr>, [])"
  by (simp add: saveDraftEpic_def initSaveEpic_def saveDraft_match_def newUserParams_def)

subsection \<open>Projection of the parameters and merge back\<close>

lemma fromEntries_mem: "fromEntries es k = Some w \<Longrightarrow> (k, w) \<in> set es"
proof (induction es)
  case Nil
  then show ?case by simp
next
  case (Cons e es)
  obtain k' v' where e: "e = (k', v')" by (cases e)
  show ?case
  proof (cases "fromEntries es k")
    case None
    with Cons.prems e have "k = k' \<and> w = v'" by (simp split: if_splits)
    then show ?thesis by (simp add: e)
  next
    case (Some u)
    with Cons.prems e have "u = w" by simp
    with Some Cons.IH show ?thesis by simp
  qed
qed


lemma fromEntries_Some:
  assumes "(k, v) \<in> set es" and "\<forall>e\<in>set es. fst e = k \<longrightarrow> snd e = v"
  shows "fromEntries es k = Some v"
  using assms
proof (induction es)
  case Nil
  then show ?case by simp
next
  case (Cons e es)
  obtain k' v' where e: "e = (k', v')" by (cases e)
  have all: "\<forall>e\<in>set es. fst e = k \<longrightarrow> snd e = v"
    using Cons.prems(2) by simp
  show ?case
  proof (cases "fromEntries es k")
    case None
    have "(k, v) \<notin> set es"
    proof
      assume "(k, v) \<in> set es"
      then have "fromEntries es k = Some v" using all by (rule Cons.IH)
      with None show False by simp
    qed
    with Cons.prems(1) e have "k' = k \<and> v' = v" by simp
    with None show ?thesis by (simp add: e)
  next
    case (Some w)
    then have "(k, w) \<in> set es" by (rule fromEntries_mem)
    with all have "w = v" by fastforce
    with Some show ?thesis by (simp add: e)
  qed
qed

lemma readProp_objParams:
  assumes "p \<in> set ps"
    and "\<forall>p\<in>set ps. \<forall>q\<in>set ps. key p = key q \<longrightarrow> value' p = value' q"
  shows "readProp (fromEntries (map (\<lambda>parameter. (key parameter, value' parameter)) ps)) (key p)
           = value' p"
proof -
  let ?es = "map (\<lambda>parameter. (key parameter, value' parameter)) ps"
  have "(key p, value' p) \<in> set ?es"
    using assms(1) by (simp add: image_iff) blast
  moreover have "\<forall>e\<in>set ?es. fst e = key p \<longrightarrow> snd e = value' p"
  proof
    fix e assume "e \<in> set ?es"
    then obtain q where q: "q \<in> set ps" "e = (key q, value' q)" by auto
    show "fst e = key p \<longrightarrow> snd e = value' p"
    proof
      assume "fst e = key p"
      then have "key q = key p" by (simp add: q)
      with assms q(1) have "value' q = value' p" by blast
      then show "snd e = value' p" by (simp add: q)
    qed
  qed
  ultimately have "fromEntries ?es (key p) = Some (value' p)"
    by (rule fromEntries_Some)
  then show ?thesis by (simp add: readProp_def)
qed

lemma roundTrip_unfold:
  "roundTrip init state ps =
     map (\<lambda>userParam. userParam\<lparr> value' :=
            readProp (fromEntries (map (\<lambda>parameter. (key parameter, value' parameter)) ps))
              (key userParam) \<rparr>) ps"
  by (simp add: roundTrip_def newUserParams_def reduce_def graphParametersEpic_def
        setUserParams_match_def setUserParams_def setDfgFilters_def setFuzzyFilters_def
        objParams_def)

text \<open>
  Claim C9, as amended. If any two parameters of the list that have the same key have
  the same value (so whenever the keys are distinct), the round trip gives the list back.
\<close>

theorem roundTrip_preserves:
  assumes "\<forall>p\<in>set ps. \<forall>q\<in>set ps. key p = key q \<longrightarrow> value' p = value' q"
  shows "roundTrip init state ps = ps"
proof -
  have "map (\<lambda>userParam. userParam\<lparr> value' :=
              readProp (fromEntries (map (\<lambda>parameter. (key parameter, value' parameter)) ps))
                (key userParam) \<rparr>) ps = map (\<lambda>p. p) ps"
  proof (rule map_cong)
    show "ps = ps" ..
  next
    fix p assume "p \<in> set ps"
    then have "readProp (fromEntries (map (\<lambda>parameter. (key parameter, value' parameter)) ps)) (key p)
           = value' p" using assms by (rule readProp_objParams)
    then show "p\<lparr> value' :=
              readProp (fromEntries (map (\<lambda>parameter. (key parameter, value' parameter)) ps))
                (key p) \<rparr> = p" by simp
  qed
  then show ?thesis by (simp add: roundTrip_unfold)
qed


theorem roundTrip_preserves_witness:
  "roundTrip (initialState 1 10) (initialState 1 10)
     [\<lparr> id' = ''1'', method' = ''dfg'', key = ''activity-frequency'', value' = JNum 3 \<rparr>,
      \<lparr> id' = ''2'', method' = ''fuzzy'', key = ''concurrency'', value' = JBool True \<rparr>]
   = [\<lparr> id' = ''1'', method' = ''dfg'', key = ''activity-frequency'', value' = JNum 3 \<rparr>,
      \<lparr> id' = ''2'', method' = ''fuzzy'', key = ''concurrency'', value' = JBool True \<rparr>]"
proof -
  have "\<forall>p\<in>set [\<lparr> id' = ''1'', method' = ''dfg'', key = ''activity-frequency'', value' = JNum 3 \<rparr>,
      \<lparr> id' = ''2'', method' = ''fuzzy'', key = ''concurrency'', value' = JBool True \<rparr>].
        \<forall>q\<in>set [\<lparr> id' = ''1'', method' = ''dfg'', key = ''activity-frequency'', value' = JNum 3 \<rparr>,
      \<lparr> id' = ''2'', method' = ''fuzzy'', key = ''concurrency'', value' = JBool True \<rparr>].
        key p = key q \<longrightarrow> value' p = value' q"
    by simp
  then show ?thesis by (rule roundTrip_preserves)
qed


text \<open>
  Claim C9 as stated fails: a DFG parameter and a fuzzy parameter with one key and the
  values 1 and 2 come back with the values 2 and 2, since both filter sets receive the
  one projected mapping, in which the later entry stays.
\<close>

theorem roundTrip_counterexample:
  "map value' (roundTrip (initialState 1 10) (initialState 1 10)
     [\<lparr> id' = ''1'', method' = ''dfg'', key = ''threshold'', value' = JNum 1 \<rparr>,
      \<lparr> id' = ''2'', method' = ''fuzzy'', key = ''threshold'', value' = JNum 2 \<rparr>])
   = [JNum 2, JNum 2]
   \<and> map value'
     [\<lparr> id' = ''1'', method' = ''dfg'', key = ''threshold'', value' = JNum 1 \<rparr>,
      \<lparr> id' = ''2'', method' = ''fuzzy'', key = ''threshold'', value' = JNum 2 \<rparr>]
   = [JNum 1, JNum 2]"
  by (simp add: roundTrip_unfold readProp_def)

subsection \<open>Debounce of the graph-refetch workflow\<close>

lemma graphEpic_idle: "timerIdle st t \<Longrightarrow> graphEpic st (t, inp) = graphInput st t inp"
  by (auto simp: timerIdle_def graphEpic_def release_def split: option.splits)

lemma graphInput_calls: "calls (snd (graphInput st t inp)) = []"
proof (cases inp)
  case (Dispatched a s)
  then show ?thesis by simp
next
  case (Settled n r)
  show ?thesis
  proof (cases r)
    case (Inl err)
    then show ?thesis using Settled by (simp add: handleError_def)
  next
    case (Inr d)
    then show ?thesis using Settled
      by (cases d) (simp_all add: handleError_def nullMetricsError_def)
  qed
next
  case Elapsed
  then show ?thesis by simp
qed

lemma graphInput_due:
  "due (fst (graphInput st t inp)) = (if isTrigger inp then Some (t + 1000) else due st)"
  by (cases inp) (simp_all add: isTrigger_def)

lemma graphInput_seen:
  "seen (fst (graphInput st t inp)) = (case inp of Dispatched _ state \<Rightarrow> state | _ \<Rightarrow> seen st)"
  by (cases inp) simp_all

lemma graphInput_issued: "issued (fst (graphInput st t inp)) = issued st"
  by (cases inp) simp_all

lemma calls_append: "calls (es @ fs) = calls es @ calls fs"
  by (induction es rule: calls.induct) simp_all

lemma burst_quiet:
  "withinBurst prev xs \<Longrightarrow> due st = map_option (\<lambda>p. p + 1000) prev \<Longrightarrow>
     calls (snd (run graphEpic st xs)) = []
     \<and> due (fst (run graphEpic st xs)) = map_option (\<lambda>p. p + 1000) (lastTrigger prev xs)
     \<and> seen (fst (run graphEpic st xs)) = latestState (seen st) xs
     \<and> issued (fst (run graphEpic st xs)) = issued st"
proof (induction xs arbitrary: prev st)
  case Nil
  then show ?case by simp
next
  case (Cons x xs)
  obtain t inp where x: "x = (t, inp)" by (cases x)
  let ?prev' = "if isTrigger inp then Some t else prev"
  let ?st' = "fst (graphInput st t inp)"
  have idle: "timerIdle st t"
    using Cons.prems by (cases prev) (simp_all add: x timerIdle_def)
  then have step: "graphEpic st x = graphInput st t inp"
    by (simp add: x graphEpic_idle)
  have burst': "withinBurst ?prev' xs"
    using Cons.prems(1) by (cases "isTrigger inp") (simp_all add: x)
  have due': "due ?st' = map_option (\<lambda>p. p + 1000) ?prev'"
    using Cons.prems(2) by (cases "isTrigger inp") (simp_all add: graphInput_due)
  note IH = Cons.IH [OF burst' due']
  have run: "run graphEpic st ((t, inp) # xs) =
      (fst (run graphEpic ?st' xs), snd (graphInput st t inp) @ snd (run graphEpic ?st' xs))"
    using step by (simp add: x split: prod.splits)
  show ?case
    unfolding x using IH
    by (simp only: run fst_conv snd_conv calls_append graphInput_calls graphInput_seen
        graphInput_issued lastTrigger.simps latestState.simps append_Nil)
qed


text \<open>
  Claim C2, as amended. With no trigger held back at the start, let the inputs \<open>xs\<close> be a
  burst with at least one \<^verbatim>\<open>getGraph\<close> trigger, the last at time \<open>tn\<close>, and let nothing
  more happen until a time \<open>T\<close> at least 1000 ms after \<open>tn\<close>. Then exactly one graph-compute
  call is made, and it is the call for the state that is the latest when the debounce
  timer runs: the state that came with the last action of the burst.
\<close>

theorem graphEpic_burst_one_call:
  assumes "due st = None" and "withinBurst None xs" and "lastTrigger None xs = Some tn"
    and "tn + 1000 \<le> T"
  shows "calls (snd (run graphEpic st (xs @ [(T, Elapsed)]))) =
           [(issued st, graphCall (latestState (seen st) xs))]"
proof -
  let ?st' = "fst (run graphEpic st xs)"
  have "due st = map_option (\<lambda>p. p + 1000) None" using assms(1) by simp
  with assms(2) have q: "calls (snd (run graphEpic st xs)) = []
     \<and> due ?st' = map_option (\<lambda>p. p + 1000) (lastTrigger None xs)
     \<and> seen ?st' = latestState (seen st) xs
     \<and> issued ?st' = issued st"
    by (rule burst_quiet)
  then have d: "due ?st' = Some (tn + 1000)" by (simp add: assms(3))
  have "calls (snd (graphEpic ?st' (T, Elapsed))) = [(issued ?st', graphCall (seen ?st'))]"
    using d assms(4)
    by (cases "active ?st'") (simp_all add: graphEpic_def release_def switchTo_def)
  then have last: "calls (snd (graphEpic ?st' (T, Elapsed))) =
      [(issued st, graphCall (latestState (seen st) xs))]"
    using q by simp
  have "snd (run graphEpic st (xs @ [(T, Elapsed)])) =
      snd (run graphEpic st xs) @ snd (graphEpic ?st' (T, Elapsed))"
    by (simp add: run_append split: prod.splits)
  then show ?thesis using q last by (simp add: calls_append)
qed

theorem graphEpic_burst_one_call_witness:
  "calls (snd (run graphEpic (initGraphEpic (initialState 1 10))
     ([(0, Dispatched GetGraph (getGraph (initialState 1 10))),
       (400, Dispatched GetGraph (getGraph (initialState 1 10))),
       (900, Dispatched GetGraph (getGraph (initialState 1 10)))] @ [(1900, Elapsed)]))) =
     [(0, PostDfg None initialDfgFilters)]"
proof -
  have "calls (snd (run graphEpic (initGraphEpic (initialState 1 10))
     ([(0, Dispatched GetGraph (getGraph (initialState 1 10))),
       (400, Dispatched GetGraph (getGraph (initialState 1 10))),
       (900, Dispatched GetGraph (getGraph (initialState 1 10)))] @ [(1900, Elapsed)]))) =
     [(issued (initGraphEpic (initialState 1 10)),
       graphCall (latestState (seen (initGraphEpic (initialState 1 10)))
         [(0, Dispatched GetGraph (getGraph (initialState 1 10))),
          (400, Dispatched GetGraph (getGraph (initialState 1 10))),
          (900, Dispatched GetGraph (getGraph (initialState 1 10)))]))]"
    by (rule graphEpic_burst_one_call [where tn = 900])
       (simp_all add: initGraphEpic_def isTrigger_def getGraph_match_def)
  then show ?thesis
    by (simp add: initGraphEpic_def graphCall_def getGraph_def initialState_def)
qed

text \<open>
  Claim C2 as stated fails. Two triggers at 0 and 300 ms, then \<^verbatim>\<open>setDfgFilters\<close> at 800 ms
  (as \<^verbatim>\<open>graphParametersEpic\<close> emits it, with no trigger after it): the one call, made at
  1300 ms, carries the filter set of 800 ms and not the filter set current at the last
  trigger.
\<close>

theorem graphEpic_burst_counterexample:
  "calls (snd (run graphEpic (initGraphEpic (initialState 1 10))
     [(0, Dispatched GetGraph (getGraph (initialState 1 10))),
      (300, Dispatched GetGraph (getGraph (initialState 1 10))),
      (800, Dispatched (SetDfgFilters [''activity-frequency'' \<mapsto> JNum 5])
              (setDfgFilters (getGraph (initialState 1 10)) [''activity-frequency'' \<mapsto> JNum 5])),
      (1300, Elapsed)])) =
     [(0, PostDfg None [''activity-frequency'' \<mapsto> JNum 5])]
   \<and> graphCall (getGraph (initialState 1 10)) = PostDfg None initialDfgFilters
   \<and> PostDfg None [''activity-frequency'' \<mapsto> JNum 5] \<noteq> PostDfg None initialDfgFilters"
proof (intro conjI)
  show "calls (snd (run graphEpic (initGraphEpic (initialState 1 10))
     [(0, Dispatched GetGraph (getGraph (initialState 1 10))),
      (300, Dispatched GetGraph (getGraph (initialState 1 10))),
      (800, Dispatched (SetDfgFilters [''activity-frequency'' \<mapsto> JNum 5])
              (setDfgFilters (getGraph (initialState 1 10)) [''activity-frequency'' \<mapsto> JNum 5])),
      (1300, Elapsed)])) =
     [(0, PostDfg None [''activity-frequency'' \<mapsto> JNum 5])]"
    by (simp add: initGraphEpic_def graphEpic_def release_def getGraph_match_def graphCall_def
        switchTo_def getGraph_def setDfgFilters_def initialState_def)
  show "graphCall (getGraph (initialState 1 10)) = PostDfg None initialDfgFilters"
    by (simp add: graphCall_def getGraph_def initialState_def)
  have "[''activity-frequency'' \<mapsto> JNum 5] ''activity-frequency''
          \<noteq> initialDfgFilters ''activity-frequency''"
    by (simp add: initialDfgFilters_def)
  then have "[''activity-frequency'' \<mapsto> JNum 5] \<noteq> initialDfgFilters"
    by (metis (no_types))
  then show "PostDfg None [''activity-frequency'' \<mapsto> JNum 5] \<noteq> PostDfg None initialDfgFilters"
    by simp
qed

subsection \<open>Graph-refetch workflow\<close>





subsection \<open>The loading flag\<close>

lemma reduce_handleError_loading:
  "status err \<noteq> Some 401 \<Longrightarrow> \<not> isLoading (reduce init state (handleError err))"
  by (simp add: handleError_def reduce_def setGraph_def getFailed_def)

lemma emitted_map_Emit: "emitted (map Emit as) = as"
  by (induction as) simp_all

text \<open>
  Claim C6, as amended. When the call of the draft-creation workflow or of the
  graph-refetch workflow answers while it is the active one (for the graph, with the
  debounce timer not due), with a value or with a failure whose status is not 401,
  the loading flag is false after the actions the workflow emits; so it is for the
  save-completion workflow on a failure whose status is not 401. On status 401 these
  workflows emit the session-expired action alone, which leaves the flag as it is.
\<close>

theorem loading_cleared_when_settled:
  "(active st = Some n \<and> \<not> unauthorized r \<longrightarrow>
      \<not> isLoading (reduce init state (emitted (snd (draftEpic st (Settled n r))))))
   \<and> (active gst = Some n \<and> timerIdle gst t \<and> \<not> unauthorized g \<longrightarrow>
      \<not> isLoading (reduce init state (emitted (snd (graphEpic gst (t, Settled n g))))))
   \<and> (active st = Some n \<and> status err \<noteq> Some 401 \<longrightarrow>
      \<not> isLoading (reduce init state
           (emitted (snd (saveDraftCompleteEpic st (Settled n (Inl err)))))))
   \<and> (active st = Some n \<and> status err = Some 401 \<longrightarrow>
      emitted (snd (draftEpic st (Settled n (Inl err)))) = [AuthLogout]
      \<and> emitted (snd (saveDraftCompleteEpic st (Settled n (Inl err)))) = [AuthLogout]
      \<and> isLoading (reduce init state [AuthLogout]) = isLoading state)
   \<and> (active gst = Some n \<and> timerIdle gst t \<and> status err = Some 401 \<longrightarrow>
      emitted (snd (graphEpic gst (t, Settled n (Inl err)))) = [AuthLogout])"
proof (intro conjI impI)
  assume "active st = Some n \<and> status err = Some 401"
  then show "emitted (snd (draftEpic st (Settled n (Inl err)))) = [AuthLogout]"
    by (simp add: handleError_def)
next
  assume "active st = Some n \<and> status err = Some 401"
  then show "emitted (snd (saveDraftCompleteEpic st (Settled n (Inl err)))) = [AuthLogout]"
    by (simp add: handleError_def)
next
  show "isLoading (reduce init state [AuthLogout]) = isLoading state"
    by (simp add: reduce_def)
next
  assume "active gst = Some n \<and> timerIdle gst t \<and> status err = Some 401"
  then show "emitted (snd (graphEpic gst (t, Settled n (Inl err)))) = [AuthLogout]"
    by (simp add: graphEpic_idle handleError_def)
next
  assume a: "active st = Some n \<and> \<not> unauthorized r"
  show "\<not> isLoading (reduce init state (emitted (snd (draftEpic st (Settled n r)))))"
  proof (cases r)
    case (Inl err)
    with a have "status err \<noteq> Some 401" by (simp add: unauthorized_def)
    then show ?thesis
      using a Inl by (simp add: emitted_map_Emit reduce_handleError_loading)
  next
    case (Inr d)
    with a show ?thesis by (simp add: reduce_def setDraft_def)
  qed
next
  assume a: "active gst = Some n \<and> timerIdle gst t \<and> \<not> unauthorized g"
  then have step: "\<And>inp. graphEpic gst (t, inp) = graphInput gst t inp"
    by (simp add: graphEpic_idle)
  show "\<not> isLoading (reduce init state (emitted (snd (graphEpic gst (t, Settled n g)))))"
  proof (cases g)
    case (Inl err)
    with a have "status err \<noteq> Some 401" by (simp add: unauthorized_def)
    then show ?thesis
      using a Inl by (simp add: step emitted_map_Emit reduce_handleError_loading)
  next
    case (Inr d)
    show ?thesis
    proof (cases d)
      case None
      have "status nullMetricsError \<noteq> Some 401" by (simp add: nullMetricsError_def)
      then show ?thesis
        using a Inr None by (simp add: step emitted_map_Emit reduce_handleError_loading)
    next
      case (Some data)
      with a Inr show ?thesis by (simp add: step reduce_def setGraph_def setGraphMetrics_def)
    qed
  qed
next
  assume a: "active st = Some n \<and> status err \<noteq> Some 401"
  then show "\<not> isLoading (reduce init state
           (emitted (snd (saveDraftCompleteEpic st (Settled n (Inl err))))))"
    by (simp add: emitted_map_Emit reduce_handleError_loading)
qed

theorem loading_cleared_when_settled_witness:
  "\<not> isLoading (reduce (initialState 1 10) (createDraft (initialState 1 10) ''view-42'')
       (emitted (snd (draftEpic \<lparr> issued = 1, active = Some 0 \<rparr>
          (Settled 0 (Inr \<lparr> draftId = Some ''d1'', draftFields = JObj [] \<rparr>))))))
   \<and> \<not> isLoading (reduce (initialState 1 10) (getGraph (initialState 1 10))
       (emitted (snd (graphEpic
          \<lparr> issued = 1, active = Some 0, seen = getGraph (initialState 1 10), due = None \<rparr>
          (1500, Settled 0 (Inl \<lparr> status = Some 500, toString = ''AjaxError: ajax error 500'' \<rparr>))))))
   \<and> \<not> isLoading (reduce (initialState 1 10) (saveDraftComplete (initialState 1 10))
       (emitted (snd (saveDraftCompleteEpic \<lparr> issued = 1, active = Some 0 \<rparr>
          (Settled 0 (Inl timeoutError))))))
   \<and> emitted (snd (draftEpic \<lparr> issued = 1, active = Some 0 \<rparr>
          (Settled 0 (Inl \<lparr> status = Some 401, toString = ''AjaxError: ajax error 401'' \<rparr>))))
       = [AuthLogout]
   \<and> emitted (snd (graphEpic
          \<lparr> issued = 1, active = Some 0, seen = getGraph (initialState 1 10), due = None \<rparr>
          (1500, Settled 0 (Inl \<lparr> status = Some 401, toString = ''AjaxError: ajax error 401'' \<rparr>))))
       = [AuthLogout]"
  using loading_cleared_when_settled [where st = "\<lparr> issued = 1, active = Some 0 \<rparr>" and n = 0
      and gst = "\<lparr> issued = 1, active = Some 0, seen = getGraph (initialState 1 10), due = None \<rparr>"
      and t = 1500
      and err = "\<lparr> status = Some 401, toString = ''AjaxError: ajax error 401'' \<rparr>"]
    loading_cleared_when_settled [where st = "\<lparr> issued = 1, active = Some 0 \<rparr>" and n = 0
      and r = "Inr \<lparr> draftId = Some ''d1'', draftFields = JObj [] \<rparr>"
      and init = "initialState 1 10" and state = "createDraft (initialState 1 10) ''view-42''"]
    loading_cleared_when_settled [where n = 0 and state = "getGraph (initialState 1 10)"
      and gst = "\<lparr> issued = 1, active = Some 0, seen = getGraph (initialState 1 10), due = None \<rparr>"
      and t = 1500 and g = "Inl \<lparr> status = Some 500, toString = ''AjaxError: ajax error 500'' \<rparr>"
      and init = "initialState 1 10"]
    loading_cleared_when_settled [where st = "\<lparr> issued = 1, active = Some 0 \<rparr>" and n = 0
      and init = "initialState 1 10" and state = "saveDraftComplete (initialState 1 10)"
      and err = timeoutError]
  by (simp add: unauthorized_def timerIdle_def timeoutError_def)

text \<open>
  Claim C6 as stated fails. \<^verbatim>\<open>saveDraftComplete\<close> sets the loading flag; when the commit
  succeeds the workflow emits \<^verbatim>\<open>resetDraft\<close> alone, and the flag is still set after it.
  \<^verbatim>\<open>createDraft\<close> sets the flag; on status 401 the workflow emits the session-expired
  action alone, and the flag is still set after it.
\<close>

theorem loading_stays_set_counterexample:
  "isLoading (saveDraftComplete (initialState 1 10))
   \<and> emitted (snd (run saveDraftCompleteEpic initSwitch
        [Dispatched SaveDraftComplete (saveDraftComplete (initialState 1 10)),
         Settled 0 (Inr ())])) = [ResetDraft]
   \<and> isLoading (reduce (initialState 1 10) (saveDraftComplete (initialState 1 10)) [ResetDraft])
   \<and> isLoading (createDraft (initialState 1 10) ''view-42'')
   \<and> emitted (snd (run draftEpic initSwitch
        [Dispatched (CreateDraft ''view-42'') (createDraft (initialState 1 10) ''view-42''),
         Settled 0 (Inl \<lparr> status = Some 401, toString = ''AjaxError: ajax error 401'' \<rparr>)]))
       = [AuthLogout]
   \<and> isLoading (reduce (initialState 1 10) (createDraft (initialState 1 10) ''view-42'')
        [AuthLogout])"
  by (simp add: initSwitch_def saveDraftComplete_match_def createDraft_match_def
      saveDraftComplete_def createDraft_def reduce_def resetDraft_def handleError_def
      switchTo_def)

end
